theory Spec2Isabelle
  imports Complex_Main
begin

section \<open>Bolt assembly: capacity table and force-distribution engine\<close>

text \<open>
  A shallow embedding of the bolt-group calculator: the capacity catalog of
  \<^verbatim>\<open>boltData.ts\<close>, the calculation effect of \<^verbatim>\<open>App\<close> and the
  \<^verbatim>\<open>calculateBoltForces\<close> function of the \<^verbatim>\<open>BoltPattern\<close> component.

  Conventions of the embedding:
  \<^item> a JavaScript \<^verbatim>\<open>number\<close> that holds a measure (length, load, capacity) is a
    \<^typ>\<open>real\<close>: arithmetic is exact, the rounding of IEEE doubles is not modelled;
  \<^item> a \<^verbatim>\<open>number\<close> that holds a count (\<^verbatim>\<open>numRows\<close>, \<^verbatim>\<open>numCols\<close>,
    \<^verbatim>\<open>numBolts\<close>) is an \<^typ>\<open>int\<close>; a loop \<^verbatim>\<open>for (i = 0; i < n; i++)\<close> runs over
    \<open>[0..<nat n]\<close>, hence not at all for \<open>n \<le> 0\<close>;
  \<^item> division by zero is \<open>0\<close> in HOL and \<^verbatim>\<open>Infinity\<close> or \<^verbatim>\<open>NaN\<close> in
    JavaScript: theorems whose truth would depend on it carry the hypotheses that
    keep every denominator away from zero;
  \<^item> \<^verbatim>\<open>throw new Error(msg)\<close> is a value \<open>Inl e\<close> of a sum type, and the React state
    touched by the effect is an explicit record.
\<close>

subsection \<open>Capacity table (boltData.ts)\<close>

text \<open>The field \<^verbatim>\<open>size\<close> is named \<open>size_bolt\<close>: \<open>size\<close> is a constant of HOL.\<close>

record BoltProperties =
  grade :: string
  size_bolt :: string
  phiVf :: real
  phiNtf :: real
  tensileArea :: real
  fuf :: real

definition mkBolt :: "string \<Rightarrow> string \<Rightarrow> real \<Rightarrow> real \<Rightarrow> real \<Rightarrow> real \<Rightarrow> BoltProperties" where
  "mkBolt g s v n a f =
     \<lparr>grade = g, size_bolt = s, phiVf = v, phiNtf = n, tensileArea = a, fuf = f\<rparr>"

definition boltData :: "BoltProperties list" where
  "boltData =
    [mkBolt ''Grade 4.6'' ''M12'' 16.7 27 84.3 400,
     mkBolt ''Grade 4.6'' ''M16'' 31.1 50.1 156.7 400,
     mkBolt ''Grade 4.6'' ''M20'' 48.6 78.3 244.8 400,
     mkBolt ''Grade 4.6'' ''M22'' 60.2 97.1 303.4 400,
     mkBolt ''Grade 4.6'' ''M24'' 69.9 112.8 352.5 400,
     mkBolt ''Grade 4.6'' ''M27'' 91.1 147 459.4 400,
     mkBolt ''Grade 4.6'' ''M30'' 111.2 179.4 560.6 400,
     mkBolt ''Grade 4.6'' ''M36'' 162 261.4 816.7 400,
     mkBolt ''Grade 8.8'' ''M12'' 34.7 56 84.3 830,
     mkBolt ''Grade 8.8'' ''M16'' 64.5 104 156.7 830,
     mkBolt ''Grade 8.8'' ''M20'' 100.8 162.5 244.8 830,
     mkBolt ''Grade 8.8'' ''M22'' 124.9 201.5 303.4 830,
     mkBolt ''Grade 8.8'' ''M24'' 145.1 234.1 352.5 830,
     mkBolt ''Grade 8.8'' ''M27'' 189.1 305 459.4 830,
     mkBolt ''Grade 8.8'' ''M30'' 230.8 372.2 560.6 830,
     mkBolt ''Grade 8.8'' ''M36'' 336.2 542.3 816.7 830,
     mkBolt ''Grade 10.9'' ''M12'' 43.1 69.4 84.3 1030,
     mkBolt ''Grade 10.9'' ''M16'' 80 129.1 156.7 1030,
     mkBolt ''Grade 10.9'' ''M20'' 125.1 201.7 244.8 1030,
     mkBolt ''Grade 10.9'' ''M22'' 155 250 303.4 1030,
     mkBolt ''Grade 10.9'' ''M24'' 180.1 290.5 352.5 1030,
     mkBolt ''Grade 10.9'' ''M27'' 234.7 378.6 459.4 1030,
     mkBolt ''Grade 10.9'' ''M30'' 286.4 461.9 560.6 1030,
     mkBolt ''Grade 10.9'' ''M36'' 417.2 673 816.7 1030]"

text \<open>\<^verbatim>\<open>boltData.filter(bolt => bolt.grade === grade).map(bolt => bolt.size)\<close>\<close>

definition getBoltSizes :: "string \<Rightarrow> string list" where
  "getBoltSizes g = map size_bolt (filter (\<lambda>bolt. grade bolt = g) boltData)"

text \<open>
  \<^verbatim>\<open>boltData.find(bolt => bolt.grade === grade && bolt.size === size)\<close>: the first
  matching entry, or \<^verbatim>\<open>undefined\<close> (here \<open>None\<close>).
\<close>

definition getBoltProperties :: "string \<Rightarrow> string \<Rightarrow> BoltProperties option" where
  "getBoltProperties g s =
     List.find (\<lambda>bolt. grade bolt = g \<and> size_bolt bolt = s) boltData"

subsection \<open>Inputs and results of the App component\<close>

datatype BoltArrangement = rectangular | circular

record Inputs =
  arrangement :: BoltArrangement
  numRows :: int
  numCols :: int
  rowSpacing :: real
  colSpacing :: real
  diameter :: real
  numBolts :: int
  vx :: real
  vy :: real
  tb :: real
  mb :: real
  mm :: real
  nt :: real
  boltGrade :: string
  boltSize :: string
  pryingAllowance :: real

text \<open>A \<^verbatim>\<open>BoltPosition\<close> \<^verbatim>\<open>{ x, y }\<close> is the pair \<open>(x, y)\<close>.\<close>

type_synonym BoltPosition = "real \<times> real"

text \<open>
  The \<^verbatim>\<open>results\<close> state. Note the source's naming: \<open>shearForce\<close> and \<open>axialForce\<close>
  hold the largest bolt shear and tension, while \<open>maxShear\<close> and \<open>maxTension\<close> hold the
  capacities \<^verbatim>\<open>phiVf\<close> and \<^verbatim>\<open>phiNtf\<close>. The fields \<^verbatim>\<open>ibp\<close> and
  \<^verbatim>\<open>tensileArea\<close> are named \<open>ibp_res\<close> and \<open>tensileArea_res\<close>.
\<close>

record Results =
  shearForce :: real
  axialForce :: real
  combinedRatio :: real
  boltPositions :: "BoltPosition list"
  maxShear :: real
  maxTension :: real
  ibp_res :: real
  tensileArea_res :: real
  shearStress :: real
  tensileStress :: real

text \<open>
  The two \<^verbatim>\<open>throw new Error(...)\<close> of the effect; \<open>errorMessage\<close> is the message
  that the \<^verbatim>\<open>catch\<close> branch stores.
\<close>

datatype EvalError = InsufficientBoltCount | UnknownBoltSpec

fun errorMessage :: "EvalError \<Rightarrow> string" where
  "errorMessage InsufficientBoltCount = ''Minimum 2 bolts required for analysis''"
| "errorMessage UnknownBoltSpec = ''Invalid bolt grade and size combination''"

record AppState =
  results :: Results
  error :: "string option"

definition initialResults :: Results where
  "initialResults =
     \<lparr>shearForce = 0, axialForce = 0, combinedRatio = 0, boltPositions = [],
      maxShear = 0, maxTension = 0, ibp_res = 0, tensileArea_res = 0,
      shearStress = 0, tensileStress = 0\<rparr>"

definition initialState :: AppState where
  "initialState = \<lparr>results = initialResults, error = None\<rparr>"

subsection \<open>Bolt layout (calculateBoltLayout)\<close>

text \<open>
  The state of the loops is the pair of the mutable \<^verbatim>\<open>positions\<close> array and the
  accumulator \<^verbatim>\<open>ibp\<close>; \<^verbatim>\<open>positions.push(p)\<close> appends.
\<close>

definition calculateBoltLayout :: "Inputs \<Rightarrow> BoltPosition list \<times> real" where
  "calculateBoltLayout inp =
    (if arrangement inp = rectangular then
       (let startX = - ((of_int (numCols inp) - 1) * colSpacing inp) / 2;
            startY = - ((of_int (numRows inp) - 1) * rowSpacing inp) / 2
        in foldl (\<lambda>st row.
             foldl (\<lambda>(positions, acc) col.
                 (let x = startX + (of_nat col * colSpacing inp);
                      y = startY + (of_nat row * rowSpacing inp)
                  in (positions @ [(x, y)], acc + (x * x + y * y))))
               st [0..<nat (numCols inp)])
             ([], 0) [0..<nat (numRows inp)])
     else
       (let radius = diameter inp / 2;
            angleIncrement = (2 * pi) / of_int (numBolts inp);
            positions = foldl (\<lambda>positions i.
                 (let angle = of_nat i * angleIncrement;
                      x = radius * cos angle;
                      y = radius * sin angle
                  in positions @ [(x, y)]))
               [] [0..<nat (numBolts inp)]
        in (positions, of_int (numBolts inp) * (radius * radius))))"

subsection \<open>The calculation effect of App\<close>

text \<open>\<^verbatim>\<open>numBolts\<close> of the effect: the total bolt count.\<close>

definition boltCount :: "Inputs \<Rightarrow> int" where
  "boltCount inp =
     (if arrangement inp = rectangular then numRows inp * numCols inp else numBolts inp)"

text \<open>
  The constants of the \<^verbatim>\<open>forEach\<close> body, as functions of the inputs, of the
  effect's locals \<^verbatim>\<open>numBolts\<close> (here \<open>n\<close>) and \<^verbatim>\<open>ibp\<close> (here \<open>I\<close>), and of the
  bolt position.
\<close>

definition verticalShear :: "Inputs \<Rightarrow> real \<Rightarrow> real \<Rightarrow> BoltPosition \<Rightarrow> real" where
  "verticalShear inp n I pos = (- vy inp * 1000 / n) + ((- tb inp * 1000000) * fst pos / I)"

definition horizontalShear :: "Inputs \<Rightarrow> real \<Rightarrow> real \<Rightarrow> BoltPosition \<Rightarrow> real" where
  "horizontalShear inp n I pos = (- vx inp * 1000 / n) + ((- tb inp * 1000000) * snd pos / I)"

definition totalShear :: "Inputs \<Rightarrow> real \<Rightarrow> real \<Rightarrow> BoltPosition \<Rightarrow> real" where
  "totalShear inp n I pos =
     sqrt ((verticalShear inp n I pos)\<^sup>2 + (horizontalShear inp n I pos)\<^sup>2) / 1000"

definition ym :: "Inputs \<Rightarrow> real" where
  "ym inp = (if arrangement inp = rectangular
             then (of_int (numRows inp) * rowSpacing inp) / 2
             else diameter inp / 2)"

definition xm :: "Inputs \<Rightarrow> real" where
  "xm inp = (if arrangement inp = rectangular
             then (of_int (numCols inp) * colSpacing inp) / 2
             else diameter inp / 2)"

definition majorAxisForce :: "Inputs \<Rightarrow> BoltPosition \<Rightarrow> real" where
  "majorAxisForce inp pos = (mb inp * 1000000 * snd pos) / (2 * ym inp * ym inp)"

definition minorAxisForce :: "Inputs \<Rightarrow> BoltPosition \<Rightarrow> real" where
  "minorAxisForce inp pos = (mm inp * 1000000 * fst pos) / (2 * xm inp * xm inp)"

definition pureAxialForce :: "Inputs \<Rightarrow> real \<Rightarrow> real" where
  "pureAxialForce inp n = nt inp * 1000 / n"

definition totalAxial :: "Inputs \<Rightarrow> real \<Rightarrow> BoltPosition \<Rightarrow> real" where
  "totalAxial inp n pos =
     pryingAllowance inp *
       (pureAxialForce inp n + majorAxisForce inp pos + minorAxisForce inp pos) / 1000"

text \<open>
  One round of \<^verbatim>\<open>positions.forEach\<close>: the state is the pair of the running
  \<^verbatim>\<open>maxShear\<close> and \<^verbatim>\<open>maxTension\<close>, both started at \<open>0\<close>.
\<close>

definition forEachBolt ::
  "Inputs \<Rightarrow> real \<Rightarrow> real \<Rightarrow> real \<times> real \<Rightarrow> BoltPosition \<Rightarrow> real \<times> real" where
  "forEachBolt inp n I st pos =
     (max (fst st) (totalShear inp n I pos), max (snd st) (totalAxial inp n pos))"

definition calculate :: "Inputs \<Rightarrow> EvalError + Results" where
  "calculate inp =
    (let n = boltCount inp in
     if n < 2 then Inl InsufficientBoltCount
     else case getBoltProperties (boltGrade inp) (boltSize inp) of
       None \<Rightarrow> Inl UnknownBoltSpec
     | Some boltProps \<Rightarrow>
        (let (positions, I) = calculateBoltLayout inp;
             (mxShear, mxTension) = foldl (forEachBolt inp (of_int n) I) (0, 0) positions;
             ratio = (mxShear / phiVf boltProps)\<^sup>2 + (mxTension / phiNtf boltProps)\<^sup>2;
             sStress = (mxShear * 1000) / tensileArea boltProps;
             tStress = (mxTension * 1000) / tensileArea boltProps
         in Inr \<lparr>shearForce = mxShear, axialForce = mxTension, combinedRatio = ratio,
                 boltPositions = positions, maxShear = phiVf boltProps,
                 maxTension = phiNtf boltProps, ibp_res = I,
                 tensileArea_res = tensileArea boltProps,
                 shearStress = sStress, tensileStress = tStress\<rparr>))"

text \<open>
  The effect as a state transformer: \<^verbatim>\<open>setResults\<close> and \<^verbatim>\<open>setError(null)\<close> on
  success, only \<^verbatim>\<open>setError(err.message)\<close> in the \<^verbatim>\<open>catch\<close> branch.
\<close>

definition calculationEffect :: "Inputs \<Rightarrow> AppState \<Rightarrow> AppState" where
  "calculationEffect inp st =
     (case calculate inp of
        Inr r \<Rightarrow> st\<lparr>results := r, error := None\<rparr>
      | Inl e \<Rightarrow> st\<lparr>error := Some (errorMessage e)\<rparr>)"

text \<open>
  The acceptance banner of the results panel:
  \<^verbatim>\<open>results.combinedRatio <= 1 ? "Design is acceptable" : "Design exceeds limits"\<close>.
\<close>

definition acceptanceBanner :: "Results \<Rightarrow> string" where
  "acceptanceBanner r =
     (if combinedRatio r \<le> 1 then ''Design is acceptable'' else ''Design exceeds limits'')"

subsection \<open>The BoltPattern component (calculateBoltForces)\<close>

text \<open>
  \<^verbatim>\<open>App\<close> passes the fields of its \<^verbatim>\<open>inputs\<close> unchanged as the props of
  \<^verbatim>\<open>BoltPattern\<close> (all but \<^verbatim>\<open>boltGrade\<close>), so the props are read from the same
  record. An entry \<^verbatim>\<open>{ x, y, shear, tension }\<close> of the returned array holds the
  drawing coordinates of the bolt (not centred) and its forces.
\<close>

record BoltForce =
  x_bolt :: real
  y_bolt :: real
  shear :: real
  tension :: real

definition calculateBoltForces :: "Inputs \<Rightarrow> BoltForce list" where
  "calculateBoltForces p =
    (let totalBolts =
           (if arrangement p = rectangular then numRows p * numCols p else numBolts p)
     in
     if arrangement p = rectangular then
       (let centerX = ((of_int (numCols p) - 1) * colSpacing p) / 2;
            centerY = ((of_int (numRows p) - 1) * rowSpacing p) / 2;
            I = foldl (\<lambda>acc row.
                  foldl (\<lambda>acc col.
                      (let x = of_nat col * colSpacing p - centerX;
                           y = of_nat row * rowSpacing p - centerY
                       in acc + (x * x + y * y)))
                    acc [0..<nat (numCols p)])
                  0 [0..<nat (numRows p)]
        in foldl (\<lambda>positions row.
             foldl (\<lambda>positions col.
                 (let x = of_nat col * colSpacing p - centerX;
                      y = of_nat row * rowSpacing p - centerY;
                      shearX = (- vx p * 1000 / of_int totalBolts) + ((- tb p * 1000000) * y / I);
                      shearY = (- vy p * 1000 / of_int totalBolts) + ((- tb p * 1000000) * x / I);
                      totShear = sqrt (shearX * shearX + shearY * shearY) / 1000;
                      ymB = (of_int (numRows p) * rowSpacing p) / 2;
                      xmB = (of_int (numCols p) * colSpacing p) / 2;
                      majorAxis = (mb p * 1000000 * y) / (2 * ymB * ymB);
                      minorAxis = (mm p * 1000000 * x) / (2 * xmB * xmB);
                      pureAxial = nt p * 1000 / of_int totalBolts;
                      totTension = pryingAllowance p * (pureAxial + majorAxis + minorAxis) / 1000
                  in positions @
                       [\<lparr>x_bolt = of_nat col * colSpacing p, y_bolt = of_nat row * rowSpacing p,
                         shear = totShear, tension = totTension\<rparr>]))
               positions [0..<nat (numCols p)])
             [] [0..<nat (numRows p)])
     else
       (let radius = diameter p / 2;
            I = of_int totalBolts * radius * radius;
            angleIncrement = (2 * pi) / of_int totalBolts
        in foldl (\<lambda>positions i.
             (let angle = of_nat i * angleIncrement;
                  x = radius * cos angle;
                  y = radius * sin angle;
                  shearX = (- vx p * 1000 / of_int totalBolts) + ((- tb p * 1000000) * y / I);
                  shearY = (- vy p * 1000 / of_int totalBolts) + ((- tb p * 1000000) * x / I);
                  totShear = sqrt (shearX * shearX + shearY * shearY) / 1000;
                  majorAxis = (mb p * 1000000 * y) / (2 * radius * radius);
                  minorAxis = (mm p * 1000000 * x) / (2 * radius * radius);
                  pureAxial = nt p * 1000 / of_int totalBolts;
                  totTension = pryingAllowance p * (pureAxial + majorAxis + minorAxis) / 1000
              in positions @
                   [\<lparr>x_bolt = x + radius, y_bolt = y + radius,
                     shear = totShear, tension = totTension\<rparr>]))
           [] [0..<nat totalBolts]))"

text \<open>
  The per-bolt values that the \<^verbatim>\<open>forEach\<close> of \<^verbatim>\<open>App\<close> computes, bolt by bolt in
  the order of \<^verbatim>\<open>positions\<close>: the pairs \<^verbatim>\<open>(totalShear, totalAxial)\<close> of its rounds.
\<close>

definition appBoltForces :: "Inputs \<Rightarrow> (real \<times> real) list" where
  "appBoltForces inp =
     (let (positions, I) = calculateBoltLayout inp
      in map (\<lambda>pos. (totalShear inp (of_int (boltCount inp)) I pos,
                      totalAxial inp (of_int (boltCount inp)) pos)) positions)"

text \<open>Closed forms of the grid coordinates, used to state the layout lemmas.\<close>

definition gridX :: "Inputs \<Rightarrow> nat \<Rightarrow> real" where
  "gridX inp col = - ((of_int (numCols inp) - 1) * colSpacing inp) / 2 + of_nat col * colSpacing inp"

definition gridY :: "Inputs \<Rightarrow> nat \<Rightarrow> real" where
  "gridY inp row = - ((of_int (numRows inp) - 1) * rowSpacing inp) / 2 + of_nat row * rowSpacing inp"

definition gridPositions :: "Inputs \<Rightarrow> BoltPosition list" where
  "gridPositions inp =
     concat (map (\<lambda>row. map (\<lambda>col. (gridX inp col, gridY inp row)) [0..<nat (numCols inp)])
                 [0..<nat (numRows inp)])"

definition circlePositions :: "Inputs \<Rightarrow> BoltPosition list" where
  "circlePositions inp =
     map (\<lambda>i. (diameter inp / 2 * cos (of_nat i * ((2 * pi) / of_int (numBolts inp))),
               diameter inp / 2 * sin (of_nat i * ((2 * pi) / of_int (numBolts inp)))))
         [0..<nat (numBolts inp)]"

text \<open>The sum of the squared distances of a list of positions from the origin.\<close>

definition sqSum :: "BoltPosition list \<Rightarrow> real" where
  "sqSum ps = sum_list (map (\<lambda>p. fst p * fst p + snd p * snd p) ps)"

subsection \<open>Concrete inputs\<close>

text \<open>The initial \<^verbatim>\<open>inputs\<close> state of \<^verbatim>\<open>App\<close>.\<close>

definition defaultInputs :: Inputs where
  "defaultInputs =
     \<lparr>arrangement = rectangular, numRows = 4, numCols = 4, rowSpacing = 150,
      colSpacing = 160, diameter = 400, numBolts = 8,
      vx = 20, vy = 5, tb = 10, mb = 50, mm = 10, nt = 10,
      boltGrade = ''Grade 8.8'', boltSize = ''M24'', pryingAllowance = 1.1\<rparr>"

text \<open>Eight bolts on a circle of 400 mm under an axial force of 80 kN alone.\<close>

definition circularAxialInputs :: Inputs where
  "circularAxialInputs =
     defaultInputs\<lparr>arrangement := circular, vx := 0, vy := 0, tb := 0, mb := 0, mm := 0,
       nt := 80\<rparr>"

text \<open>A single bolt: one row and one column.\<close>

definition singleBoltInputs :: Inputs where
  "singleBoltInputs = defaultInputs\<lparr>numRows := 1, numCols := 1\<rparr>"

text \<open>A size that the catalog does not hold, on the default group and on a single bolt.\<close>

definition unknownSizeInputs :: Inputs where
  "unknownSizeInputs = defaultInputs\<lparr>boltSize := ''M99''\<rparr>"

definition singleBoltUnknownSizeInputs :: Inputs where
  "singleBoltUnknownSizeInputs = defaultInputs\<lparr>numRows := 1, numCols := 1, boltSize := ''M99''\<rparr>"

text \<open>One row of two bolts under an axial compression of 10 kN alone.\<close>

definition compressionInputs :: Inputs where
  "compressionInputs =
     defaultInputs\<lparr>numRows := 1, numCols := 2, vx := 0, vy := 0, tb := 0, mb := 0, mm := 0,
       nt := - 10\<rparr>"

text \<open>
  One row of two bolts under the shears 30 kN and 40 kN and an axial tension of 10 kN,
  and the results that the effect stores for it.
\<close>

definition directShearInputs :: Inputs where
  "directShearInputs =
     defaultInputs\<lparr>numRows := 1, numCols := 2, vx := 30, vy := 40, tb := 0, mb := 0, mm := 0,
       nt := 10\<rparr>"

definition directShearResults :: Results where
  "directShearResults =
     \<lparr>shearForce = 25, axialForce = 5.5,
      combinedRatio = (25 / 145.1)\<^sup>2 + (5.5 / 234.1)\<^sup>2,
      boltPositions = [(- 80, 0), (80, 0)],
      maxShear = 145.1, maxTension = 234.1, ibp_res = 12800, tensileArea_res = 352.5,
      shearStress = 25000 / 352.5, tensileStress = 5500 / 352.5\<rparr>"

text \<open>The results that the effect stores for \<open>compressionInputs\<close>.\<close>

definition compressionResults :: Results where
  "compressionResults =
     \<lparr>shearForce = 0, axialForce = 0, combinedRatio = 0,
      boltPositions = [(- 80, 0), (80, 0)],
      maxShear = 145.1, maxTension = 234.1, ibp_res = 12800, tensileArea_res = 352.5,
      shearStress = 0, tensileStress = 0\<rparr>"

text \<open>
  The running maxima after the \<^verbatim>\<open>forEach\<close> of the effect: the pair of the final
  \<^verbatim>\<open>maxShear\<close> and \<^verbatim>\<open>maxTension\<close>.
\<close>

definition trackedMax :: "Inputs \<Rightarrow> real \<times> real" where
  "trackedMax inp =
     foldl (forEachBolt inp (of_int (boltCount inp)) (snd (calculateBoltLayout inp))) (0, 0)
       (fst (calculateBoltLayout inp))"

section \<open>Auxiliary lemmas\<close>

subsection \<open>Loops as folds\<close>

lemma foldl_push_acc:
  "foldl (\<lambda>(ps, acc) i. (ps @ [f i], acc + g i)) (ps0, a0) xs
     = (ps0 @ map f xs, a0 + sum_list (map g xs))"
  by (induction xs arbitrary: ps0 a0) (simp_all add: add.assoc)

lemma foldl_push:
  "foldl (\<lambda>ps i. ps @ [f i]) ps0 xs = ps0 @ map f xs"
  by (induction xs arbitrary: ps0) simp_all

lemma foldl_acc:
  "foldl (\<lambda>acc i. acc + g i) (a0::real) xs = a0 + sum_list (map g xs)"
  by (induction xs arbitrary: a0) (simp_all add: add.assoc)

lemma foldl_nested_push_acc:
  "foldl (\<lambda>st row. foldl (\<lambda>(ps, acc) col. (ps @ [f row col], acc + g row col)) st cs)
       (ps0, a0) rs
     = (ps0 @ concat (map (\<lambda>row. map (f row) cs) rs),
        a0 + sum_list (map (\<lambda>row. sum_list (map (g row) cs)) rs))"
  by (induction rs arbitrary: ps0 a0) (simp_all add: foldl_push_acc add.assoc)

lemma foldl_nested_push:
  "foldl (\<lambda>ps row. foldl (\<lambda>ps col. ps @ [f row col]) ps cs) ps0 rs
     = ps0 @ concat (map (\<lambda>row. map (f row) cs) rs)"
  by (induction rs arbitrary: ps0) (simp_all add: foldl_push)

lemma foldl_nested_acc:
  "foldl (\<lambda>acc row. foldl (\<lambda>acc col. acc + g row col) acc cs) (a0::real) rs
     = a0 + sum_list (map (\<lambda>row. sum_list (map (g row) cs)) rs)"
  by (induction rs arbitrary: a0) (simp_all add: foldl_acc add.assoc)

subsection \<open>Closed forms of the layout\<close>

lemma sum_list_concat_real:
  "sum_list (concat xss) = sum_list (map sum_list (xss :: real list list))"
  by (induction xss) simp_all

lemma layout_rect:
  "arrangement inp = rectangular \<Longrightarrow>
   calculateBoltLayout inp = (gridPositions inp, sqSum (gridPositions inp))"
  unfolding calculateBoltLayout_def gridPositions_def sqSum_def
  by (simp add: Let_def foldl_nested_push_acc gridX_def gridY_def map_concat comp_def sum_list_concat_real)

lemma layout_circ:
  "arrangement inp = circular \<Longrightarrow>
   calculateBoltLayout inp =
     (circlePositions inp, of_int (numBolts inp) * (diameter inp / 2 * (diameter inp / 2)))"
  unfolding calculateBoltLayout_def circlePositions_def
  by (simp add: Let_def foldl_push)

lemma length_gridPositions:
  "length (gridPositions inp) = nat (numRows inp) * nat (numCols inp)"
  unfolding gridPositions_def
  by (simp add: length_concat comp_def sum_list_triv)

lemma length_layout:
  assumes "arrangement inp = rectangular \<longrightarrow> 0 \<le> numRows inp"
  shows "length (fst (calculateBoltLayout inp)) = nat (boltCount inp)"
proof (cases "arrangement inp")
  case rectangular
  with assms show ?thesis
    by (simp add: layout_rect length_gridPositions boltCount_def nat_mult_distrib)
next
  case circular
  then show ?thesis
    by (simp add: layout_circ circlePositions_def boltCount_def)
qed

lemma sqSum_grid:
  "sqSum (gridPositions inp)
     = sum_list (map (\<lambda>row. sum_list (map (\<lambda>col.
           gridX inp col * gridX inp col + gridY inp row * gridY inp row)
         [0..<nat (numCols inp)])) [0..<nat (numRows inp)])"
  unfolding sqSum_def gridPositions_def
  by (simp add: map_concat comp_def sum_list_concat_real)

subsection \<open>Centroid of the grid and of the circle\<close>

lemma sum_list_arith:
  "sum_list (map (\<lambda>i. a + of_nat i * d) [0..<n])
     = of_nat n * a + d * (of_nat n * (of_nat n - 1) / 2)" for a d :: real
  by (induction n) (simp_all add: field_simps)

lemma centred_sum:
  "sum_list (map (\<lambda>i. - ((of_int k - 1) * d) / 2 + of_nat i * d) [0..<nat k]) = 0"
  for d :: real
proof (cases "0 \<le> k")
  case True
  then have k: "of_int k = (of_nat (nat k) :: real)" by simp
  show ?thesis unfolding k by (subst sum_list_arith) (simp add: field_simps)
next
  case False
  then show ?thesis by simp
qed

lemma gridX_sum: "sum_list (map (gridX inp) [0..<nat (numCols inp)]) = 0"
  unfolding gridX_def by (rule centred_sum)

lemma gridY_sum: "sum_list (map (gridY inp) [0..<nat (numRows inp)]) = 0"
  unfolding gridY_def by (rule centred_sum)

lemma sum_list_const_real: "sum_list (map (\<lambda>_. c) xs) = of_nat (length xs) * (c::real)"
  by (induction xs) (simp_all add: field_simps)

lemma sum_list_scale_real: "sum_list (map (\<lambda>i. c * f i) xs) = c * sum_list (map f xs)" for c :: real
  by (induction xs) (simp_all add: field_simps)

lemma grid_sum_x: "sum_list (map fst (gridPositions inp)) = 0"
  unfolding gridPositions_def
  by (simp add: map_concat comp_def sum_list_concat_real gridX_sum)

lemma grid_sum_y: "sum_list (map snd (gridPositions inp)) = 0"
  unfolding gridPositions_def
  by (simp add: map_concat comp_def sum_list_concat_real sum_list_const_real gridY_sum
      sum_list_scale_real)

lemma cis_sum_zero:
  assumes "2 \<le> n"
  shows "(\<Sum>i<n. cis (of_nat i * ((2 * pi) / of_nat n))) = 0"
proof -
  let ?t = "(2 * pi) / real n"
  have pos: "0 < ?t" using assms by simp
  have lt: "?t < 2 * pi" using assms by (simp add: field_simps)
  have ne: "cis ?t \<noteq> 1"
  proof
    assume "cis ?t = 1"
    then have "cos ?t = 1" by (simp add: complex_eq_iff)
    then obtain k :: int where k: "?t = of_int k * 2 * pi"
      using cos_one_2pi_int by blast
    with pos have "0 < k" by (simp add: zero_less_mult_iff)
    moreover from k lt have "k < 1" by simp
    ultimately show False by simp
  qed
  have "(\<Sum>i<n. cis (of_nat i * ?t)) = (\<Sum>i<n. (cis ?t) ^ i)"
    by (simp add: DeMoivre)
  also have "\<dots> = ((cis ?t) ^ n - 1) / (cis ?t - 1)"
    using ne by (rule geometric_sum)
  also have "(cis ?t) ^ n = 1"
    using assms by (simp add: DeMoivre)
  finally show ?thesis by simp
qed

lemma cos_sum_zero:
  assumes "2 \<le> n"
  shows "sum_list (map (\<lambda>i. cos (of_nat i * ((2 * pi) / of_nat n))) [0..<n]) = 0"
proof -
  have "sum_list (map (\<lambda>i. cos (of_nat i * ((2 * pi) / of_nat n))) [0..<n])
          = (\<Sum>i<n. cos (of_nat i * ((2 * pi) / of_nat n)))"
    by (simp only: interv_sum_list_conv_sum_set_nat set_upt atLeast0LessThan)
  also have "\<dots> = Re (\<Sum>i<n. cis (of_nat i * ((2 * pi) / of_nat n)))"
    by (simp only: Re_sum cis.sel)
  also have "\<dots> = 0"
    by (simp only: cis_sum_zero [OF assms] zero_complex.sel)
  finally show ?thesis .
qed

lemma sin_sum_zero:
  assumes "2 \<le> n"
  shows "sum_list (map (\<lambda>i. sin (of_nat i * ((2 * pi) / of_nat n))) [0..<n]) = 0"
proof -
  have "sum_list (map (\<lambda>i. sin (of_nat i * ((2 * pi) / of_nat n))) [0..<n])
          = (\<Sum>i<n. sin (of_nat i * ((2 * pi) / of_nat n)))"
    by (simp only: interv_sum_list_conv_sum_set_nat set_upt atLeast0LessThan)
  also have "\<dots> = Im (\<Sum>i<n. cis (of_nat i * ((2 * pi) / of_nat n)))"
    by (simp only: Im_sum cis.sel)
  also have "\<dots> = 0"
    by (simp only: cis_sum_zero [OF assms] zero_complex.sel)
  finally show ?thesis .
qed

lemma circle_sum_x:
  assumes "2 \<le> numBolts inp"
  shows "sum_list (map fst (circlePositions inp)) = 0"
proof -
  have n: "of_int (numBolts inp) = (of_nat (nat (numBolts inp)) :: real)"
    and n2: "2 \<le> nat (numBolts inp)"
    using assms by simp_all
  have "map fst (circlePositions inp)
          = map (\<lambda>i. (diameter inp / 2) * cos (of_nat i * ((2 * pi) / of_nat (nat (numBolts inp)))))
                [0..<nat (numBolts inp)]"
    unfolding circlePositions_def n by (simp only: map_map comp_def fst_conv)
  then show ?thesis
    by (simp only: sum_list_scale_real cos_sum_zero [OF n2] mult_zero_right)
qed

lemma circle_sum_y:
  assumes "2 \<le> numBolts inp"
  shows "sum_list (map snd (circlePositions inp)) = 0"
proof -
  have n: "of_int (numBolts inp) = (of_nat (nat (numBolts inp)) :: real)"
    and n2: "2 \<le> nat (numBolts inp)"
    using assms by simp_all
  have "map snd (circlePositions inp)
          = map (\<lambda>i. (diameter inp / 2) * sin (of_nat i * ((2 * pi) / of_nat (nat (numBolts inp)))))
                [0..<nat (numBolts inp)]"
    unfolding circlePositions_def n by (simp only: map_map comp_def snd_conv)
  then show ?thesis
    by (simp only: sum_list_scale_real sin_sum_zero [OF n2] mult_zero_right)
qed

subsection \<open>Positivity of the polar moment\<close>

lemma sqSum_ge:
  "p \<in> set ps \<Longrightarrow> fst p * fst p + snd p * snd p \<le> sqSum ps"
  unfolding sqSum_def
proof (induction ps)
  case Nil
  then show ?case by simp
next
  case (Cons q qs)
  let ?d = "\<lambda>p :: BoltPosition. fst p * fst p + snd p * snd p"
  have nn: "0 \<le> sum_list (map ?d qs)"
    by (rule sum_list_nonneg) auto
  have q: "0 \<le> ?d q" by simp
  have split: "sum_list (map ?d (q # qs)) = ?d q + sum_list (map ?d qs)" by simp
  show ?case
  proof (cases "p = q")
    case True
    then show ?thesis unfolding split using nn by simp
  next
    case False
    with Cons have "?d p \<le> sum_list (map ?d qs)" by simp
    then show ?thesis unfolding split using q by linarith
  qed
qed

lemma grid_first:
  assumes "1 \<le> numRows inp" "1 \<le> numCols inp"
  shows "(gridX inp 0, gridY inp 0) \<in> set (gridPositions inp)"
  unfolding gridPositions_def using assms
  by (auto intro!: bexI [where x = 0] image_eqI [where x = 0])

lemma grid_ibp_pos:
  assumes "1 \<le> numRows inp" "1 \<le> numCols inp" "2 \<le> numRows inp * numCols inp"
    and "0 < rowSpacing inp" "0 < colSpacing inp"
  shows "0 < sqSum (gridPositions inp)"
proof -
  have two: "2 \<le> numRows inp \<or> 2 \<le> numCols inp"
  proof (rule ccontr)
    assume "\<not> ?thesis"
    with assms(1,2) have "numRows inp = 1" "numCols inp = 1" by simp_all
    with assms(3) show False by simp
  qed
  have "0 < gridX inp 0 * gridX inp 0 + gridY inp 0 * gridY inp 0"
  proof (rule disjE [OF two])
    assume "2 \<le> numRows inp"
    then have "gridY inp 0 < 0"
      unfolding gridY_def using assms(4) by (simp add: field_simps)
    then have "0 < gridY inp 0 * gridY inp 0" by (simp add: zero_less_mult_iff)
    moreover have "0 \<le> gridX inp 0 * gridX inp 0" by simp
    ultimately show ?thesis by linarith
  next
    assume "2 \<le> numCols inp"
    then have "gridX inp 0 < 0"
      unfolding gridX_def using assms(5) by (simp add: field_simps)
    then have "0 < gridX inp 0 * gridX inp 0" by (simp add: zero_less_mult_iff)
    moreover have "0 \<le> gridY inp 0 * gridY inp 0" by simp
    ultimately show ?thesis by linarith
  qed
  also have "\<dots> \<le> sqSum (gridPositions inp)"
    using sqSum_ge [OF grid_first [OF assms(1,2)]] by simp
  finally show ?thesis .
qed

subsection \<open>The catalog lookup\<close>

lemma boltData_keys_distinct:
  "distinct (map (\<lambda>b. (grade b, size_bolt b)) boltData)"
  unfolding boltData_def mkBolt_def by simp

lemma find_by_key:
  "distinct (map k xs) \<Longrightarrow> b \<in> set xs \<Longrightarrow> List.find (\<lambda>x. k x = k b) xs = Some b"
  by (induction xs) (auto simp: image_iff)

lemma getBoltProperties_Some_iff:
  "getBoltProperties g s = Some b \<longleftrightarrow> b \<in> set boltData \<and> grade b = g \<and> size_bolt b = s"
proof
  assume "getBoltProperties g s = Some b"
  then show "b \<in> set boltData \<and> grade b = g \<and> size_bolt b = s"
    unfolding getBoltProperties_def by (auto simp: find_Some_iff)
next
  assume h: "b \<in> set boltData \<and> grade b = g \<and> size_bolt b = s"
  have "List.find (\<lambda>x. (grade x, size_bolt x) = (grade b, size_bolt b)) boltData = Some b"
    using find_by_key [OF boltData_keys_distinct] h by fast
  with h show "getBoltProperties g s = Some b"
    unfolding getBoltProperties_def by simp
qed

lemma getBoltProperties_None_iff:
  "getBoltProperties g s = None \<longleftrightarrow> (g, s) \<notin> set (map (\<lambda>b. (grade b, size_bolt b)) boltData)"
  unfolding getBoltProperties_def by (auto simp: find_None_iff)

lemma lookup_M24: "getBoltProperties ''Grade 8.8'' ''M24'' = Some (mkBolt ''Grade 8.8'' ''M24'' 145.1 234.1 352.5 830)"
  unfolding getBoltProperties_def boltData_def mkBolt_def by simp

lemma lookup_M99: "getBoltProperties ''Grade 8.8'' ''M99'' = None"
  unfolding getBoltProperties_def boltData_def mkBolt_def by simp

lemma unknownSize_lookup:
  "getBoltProperties (boltGrade unknownSizeInputs) (boltSize unknownSizeInputs) = None"
  by (simp add: unknownSizeInputs_def defaultInputs_def lookup_M99)

subsection \<open>The three outcomes of the calculation\<close>

lemma calculate_insufficient:
  "boltCount inp < 2 \<Longrightarrow> calculate inp = Inl InsufficientBoltCount"
  unfolding calculate_def by (simp add: Let_def)

lemma calculate_unknown:
  "2 \<le> boltCount inp \<Longrightarrow> getBoltProperties (boltGrade inp) (boltSize inp) = None
     \<Longrightarrow> calculate inp = Inl UnknownBoltSpec"
  unfolding calculate_def by (simp add: Let_def)

lemma calculate_success:
  assumes "2 \<le> boltCount inp" "getBoltProperties (boltGrade inp) (boltSize inp) = Some b"
  shows "calculate inp =
    Inr \<lparr>shearForce = fst (trackedMax inp), axialForce = snd (trackedMax inp),
         combinedRatio = (fst (trackedMax inp) / phiVf b)\<^sup>2 + (snd (trackedMax inp) / phiNtf b)\<^sup>2,
         boltPositions = fst (calculateBoltLayout inp),
         maxShear = phiVf b, maxTension = phiNtf b,
         ibp_res = snd (calculateBoltLayout inp),
         tensileArea_res = tensileArea b,
         shearStress = (fst (trackedMax inp) * 1000) / tensileArea b,
         tensileStress = (snd (trackedMax inp) * 1000) / tensileArea b\<rparr>"
  using assms unfolding calculate_def trackedMax_def
  by (simp add: Let_def split_beta)

lemma calculate_Inr_cases:
  assumes "calculate inp = Inr r"
  obtains b where "2 \<le> boltCount inp" "getBoltProperties (boltGrade inp) (boltSize inp) = Some b"
proof (cases "boltCount inp < 2")
  case True
  with assms show ?thesis by (simp add: calculate_insufficient)
next
  case False
  show ?thesis
  proof (cases "getBoltProperties (boltGrade inp) (boltSize inp)")
    case None
    with False assms show ?thesis by (simp add: calculate_unknown)
  next
    case (Some b)
    with False that show ?thesis by simp
  qed
qed

subsection \<open>The running maxima\<close>

lemma appBoltForces_eq:
  "appBoltForces inp =
     map (\<lambda>pos. (totalShear inp (of_int (boltCount inp)) (snd (calculateBoltLayout inp)) pos,
                   totalAxial inp (of_int (boltCount inp)) pos))
         (fst (calculateBoltLayout inp))"
  unfolding appBoltForces_def by (simp add: split_beta)

lemma totalAxial_pure:
  assumes "mb inp = 0" "mm inp = 0"
  shows "totalAxial inp n pos = pryingAllowance inp * nt inp / n"
  unfolding totalAxial_def pureAxialForce_def majorAxisForce_def minorAxisForce_def
  using assms by simp

lemma foldl_forEachBolt:
  "foldl (forEachBolt inp n I) (a, b) ps
     = (Max (set (a # map (totalShear inp n I) ps)), Max (set (b # map (totalAxial inp n) ps)))"
proof (induction ps arbitrary: a b)
  case Nil
  then show ?case by simp
next
  case (Cons p ps)
  have step: "forEachBolt inp n I (a, b) p
                = (max a (totalShear inp n I p), max b (totalAxial inp n p))"
    by (simp add: forEachBolt_def)
  have M: "Max (set (max c s # xs)) = Max (set (c # s # xs))" for c s :: real and xs
    by (cases "xs = []") (simp_all add: max.assoc)
  show ?case
    by (simp only: foldl_Cons step Cons.IH M list.map)
qed

lemma trackedMax_eq:
  "trackedMax inp = (Max (set (0 # map fst (appBoltForces inp))),
                     Max (set (0 # map snd (appBoltForces inp))))"
  unfolding trackedMax_def foldl_forEachBolt appBoltForces_eq
  by (simp add: comp_def)

lemma totalShear_nonneg: "0 \<le> totalShear inp n I pos"
  unfolding totalShear_def by simp

lemma appBoltForces_shear_nonneg: "s \<in> set (map fst (appBoltForces inp)) \<Longrightarrow> 0 \<le> s"
  unfolding appBoltForces_eq by (auto simp: totalShear_nonneg)

lemma Max_with_zero:
  fixes xs :: "real list"
  assumes "\<exists>x \<in> set xs. 0 \<le> x"
  shows "Max (set (0 # xs)) = Max (set xs)"
proof -
  from assms obtain x where x: "x \<in> set xs" "0 \<le> x" by blast
  then have ne: "set xs \<noteq> {}" by auto
  have "x \<le> Max (set xs)" using x(1) by simp
  with x(2) have "0 \<le> Max (set xs)" by linarith
  then show ?thesis using ne by (simp add: max_def)
qed

lemma Max_all_negative:
  fixes xs :: "real list"
  assumes "\<forall>x \<in> set xs. x < 0"
  shows "Max (set (0 # xs)) = 0"
proof (cases "xs = []")
  case True
  then show ?thesis by simp
next
  case False
  then have "Max (set xs) \<in> set xs" by (intro Max_in) simp_all
  with assms have neg: "Max (set xs) < 0" by blast
  have eq: "Max (set (0 # xs)) = max 0 (Max (set xs))"
    using False by simp
  show ?thesis
    by (simp only: eq max.absorb1 [OF less_imp_le [OF neg]])
qed

subsection \<open>The two copies of the force distribution\<close>

lemma bp_x:
  "of_nat col * colSpacing p - (of_int (numCols p) - 1) * colSpacing p / 2 = gridX p col"
  by (simp add: gridX_def)

lemma bp_y:
  "of_nat row * rowSpacing p - (of_int (numRows p) - 1) * rowSpacing p / 2 = gridY p row"
  by (simp add: gridY_def)

lemma bp_rect:
  assumes "arrangement p = rectangular"
  shows "map (\<lambda>bf. (shear bf, tension bf)) (calculateBoltForces p) = appBoltForces p"
proof -
  have n: "boltCount p = numRows p * numCols p"
    using assms by (simp add: boltCount_def)
  show ?thesis
    unfolding calculateBoltForces_def appBoltForces_eq layout_rect [OF assms] fst_conv snd_conv
      Let_def bp_x bp_y foldl_nested_acc foldl_nested_push
    apply (simp only: assms if_True)
    apply (simp only: sqSum_grid [symmetric] add_0)
    apply (simp add: gridPositions_def map_concat comp_def totalShear_def verticalShear_def
        horizontalShear_def totalAxial_def pureAxialForce_def majorAxisForce_def
        minorAxisForce_def ym_def xm_def assms n power2_eq_square add.commute)
    done
qed

lemma bp_circ:
  assumes "arrangement p = circular"
  shows "map (\<lambda>bf. (shear bf, tension bf)) (calculateBoltForces p) = appBoltForces p"
proof -
  have n: "boltCount p = numBolts p"
    using assms by (simp add: boltCount_def)
  show ?thesis
    unfolding calculateBoltForces_def appBoltForces_eq layout_circ [OF assms] fst_conv snd_conv
      Let_def foldl_push
    apply (simp add: assms)
    apply (simp add: circlePositions_def comp_def totalShear_def verticalShear_def
        horizontalShear_def totalAxial_def pureAxialForce_def majorAxisForce_def
        minorAxisForce_def ym_def xm_def assms n power2_eq_square add.commute)
    done
qed

subsection \<open>Evaluation at the concrete inputs\<close>

lemma sqrt_625000000: "sqrt 625000000 = 25000"
  by (rule real_sqrt_unique) simp_all

lemma directShear_layout:
  "calculateBoltLayout directShearInputs = ([(- 80, 0), (80, 0)], 12800)"
  unfolding calculateBoltLayout_def directShearInputs_def defaultInputs_def
  by (simp add: upt_rec Let_def)

lemma directShear_count: "boltCount directShearInputs = 2"
  by (simp add: boltCount_def directShearInputs_def defaultInputs_def)

lemma directShear_tracked: "trackedMax directShearInputs = (25, 5.5)"
  unfolding trackedMax_def directShear_layout directShear_count
  by (simp add: forEachBolt_def totalShear_def verticalShear_def horizontalShear_def
      totalAxial_def pureAxialForce_def majorAxisForce_def minorAxisForce_def
      directShearInputs_def defaultInputs_def sqrt_625000000)

lemma directShear_calculate: "calculate directShearInputs = Inr directShearResults"
proof -
  have g: "getBoltProperties (boltGrade directShearInputs) (boltSize directShearInputs)
             = Some (mkBolt ''Grade 8.8'' ''M24'' 145.1 234.1 352.5 830)"
    by (simp add: directShearInputs_def defaultInputs_def lookup_M24)
  have n: "2 \<le> boltCount directShearInputs" by (simp add: directShear_count)
  show ?thesis
    unfolding calculate_success [OF n g] directShear_tracked directShear_layout
      directShearResults_def
    by (simp add: mkBolt_def)
qed

lemma directShear_forces: "appBoltForces directShearInputs = [(25, 5.5), (25, 5.5)]"
  unfolding appBoltForces_eq directShear_layout directShear_count
  by (simp add: totalShear_def verticalShear_def horizontalShear_def
      totalAxial_def pureAxialForce_def majorAxisForce_def minorAxisForce_def
      directShearInputs_def defaultInputs_def sqrt_625000000)

lemma compression_layout:
  "calculateBoltLayout compressionInputs = ([(- 80, 0), (80, 0)], 12800)"
  unfolding calculateBoltLayout_def compressionInputs_def defaultInputs_def
  by (simp add: upt_rec Let_def)

lemma compression_count: "boltCount compressionInputs = 2"
  by (simp add: boltCount_def compressionInputs_def defaultInputs_def)

lemma compression_forces: "appBoltForces compressionInputs = [(0, - 5.5), (0, - 5.5)]"
  unfolding appBoltForces_eq compression_layout compression_count
  by (simp add: totalShear_def verticalShear_def horizontalShear_def
      totalAxial_def pureAxialForce_def majorAxisForce_def minorAxisForce_def
      compressionInputs_def defaultInputs_def)

lemma compression_calculate: "calculate compressionInputs = Inr compressionResults"
proof -
  have g: "getBoltProperties (boltGrade compressionInputs) (boltSize compressionInputs)
             = Some (mkBolt ''Grade 8.8'' ''M24'' 145.1 234.1 352.5 830)"
    by (simp add: compressionInputs_def defaultInputs_def lookup_M24)
  have n: "2 \<le> boltCount compressionInputs" by (simp add: compression_count)
  have t: "trackedMax compressionInputs = (0, 0)"
    unfolding trackedMax_eq compression_forces by simp
  show ?thesis
    unfolding calculate_success [OF n g] t compression_layout compressionResults_def
    by (simp add: mkBolt_def)
qed

lemma default_corner_tension:
  "totalAxial defaultInputs 16 (- 240, - 225) = - 80.953125"
  by (simp add: totalAxial_def pureAxialForce_def majorAxisForce_def minorAxisForce_def
      ym_def xm_def defaultInputs_def)

lemma default_corner_position:
  "hd (fst (calculateBoltLayout defaultInputs)) = (- 240, - 225)"
  unfolding calculateBoltLayout_def defaultInputs_def
  by (simp add: upt_rec Let_def)

lemma default_count: "boltCount defaultInputs = 16"
  by (simp add: boltCount_def defaultInputs_def)

lemma circularAxial_first:
  "hd (fst (calculateBoltLayout circularAxialInputs)) = (200, 0)"
proof -
  have a: "arrangement circularAxialInputs = circular"
    by (simp add: circularAxialInputs_def defaultInputs_def)
  have ne: "[0..<nat (numBolts circularAxialInputs)] \<noteq> []"
    by (simp add: circularAxialInputs_def defaultInputs_def)
  show ?thesis
    unfolding layout_circ [OF a] fst_conv circlePositions_def hd_map [OF ne]
    by (simp add: hd_upt circularAxialInputs_def defaultInputs_def)
qed

section \<open>Per-bolt forces\<close>

text \<open>
  Claim C1. For every input and every bolt position \<open>(x, y)\<close>, the resultant shear
  that the effect computes for the bolt, in kN, is
  \<open>sqrt ((-Vx*1000/n + (-Tb*1e6)*y/Ibp)\<^sup>2 + (-Vy*1000/n + (-Tb*1e6)*x/Ibp)\<^sup>2) / 1000\<close>:
  the direct share of each shear component plus the torsion term on the perpendicular
  coordinate, the magnitude divided by 1000. The second conjunct states it for the bolts
  of the layout, in order, with \<open>n\<close> the total bolt count and \<open>Ibp\<close> the polar moment of
  the layout.
\<close>

theorem bolt_shear_formula:
  "totalShear inp n I (x, y)
     = sqrt ((- vx inp * 1000 / n + (- tb inp * 1000000) * y / I)\<^sup>2
           + (- vy inp * 1000 / n + (- tb inp * 1000000) * x / I)\<^sup>2) / 1000
   \<and> map fst (appBoltForces inp)
     = map (\<lambda>(x, y).
          sqrt ((- vx inp * 1000 / of_int (boltCount inp)
                   + (- tb inp * 1000000) * y / snd (calculateBoltLayout inp))\<^sup>2
              + (- vy inp * 1000 / of_int (boltCount inp)
                   + (- tb inp * 1000000) * x / snd (calculateBoltLayout inp))\<^sup>2) / 1000)
         (fst (calculateBoltLayout inp))"
proof
  show f: "totalShear inp n I (x, y)
     = sqrt ((- vx inp * 1000 / n + (- tb inp * 1000000) * y / I)\<^sup>2
           + (- vy inp * 1000 / n + (- tb inp * 1000000) * x / I)\<^sup>2) / 1000" for n I x y
    unfolding totalShear_def verticalShear_def horizontalShear_def
    by (simp add: add.commute)
  show "map fst (appBoltForces inp)
     = map (\<lambda>(x, y).
          sqrt ((- vx inp * 1000 / of_int (boltCount inp)
                   + (- tb inp * 1000000) * y / snd (calculateBoltLayout inp))\<^sup>2
              + (- vy inp * 1000 / of_int (boltCount inp)
                   + (- tb inp * 1000000) * x / snd (calculateBoltLayout inp))\<^sup>2) / 1000)
         (fst (calculateBoltLayout inp))"
    unfolding appBoltForces_eq map_map comp_def fst_conv
    by (rule map_cong [OF refl]) (simp only: f [symmetric] split_beta prod.collapse)
qed

text \<open>
  Claim C2. For every input and every bolt position \<open>(x, y)\<close>, the tension that the
  effect computes for the bolt, in kN, is
  \<open>\<alpha> * (Nt*1000/n + Mb*1e6*y/(2*ym\<^sup>2) + Mm*1e6*x/(2*xm\<^sup>2)) / 1000\<close> with
  \<open>ym = numRows*rowSpacing/2\<close> and \<open>xm = numCols*colSpacing/2\<close> for a rectangular
  arrangement and \<open>ym = xm = diameter/2\<close> for a circular one. Nothing is clipped at zero:
  the first bolt of the default group, on the compression side of both moments, has the
  tension \<open>-80.953125\<close> kN.
\<close>

theorem bolt_tension_formula:
  "totalAxial inp n (x, y)
     = pryingAllowance inp *
         (nt inp * 1000 / n
          + mb inp * 1000000 * y
              / (2 * (if arrangement inp = rectangular
                      then of_int (numRows inp) * rowSpacing inp / 2 else diameter inp / 2)\<^sup>2)
          + mm inp * 1000000 * x
              / (2 * (if arrangement inp = rectangular
                      then of_int (numCols inp) * colSpacing inp / 2 else diameter inp / 2)\<^sup>2))
         / 1000
   \<and> map snd (appBoltForces inp)
     = map (\<lambda>(x, y). pryingAllowance inp *
         (nt inp * 1000 / of_int (boltCount inp)
          + mb inp * 1000000 * y
              / (2 * (if arrangement inp = rectangular
                      then of_int (numRows inp) * rowSpacing inp / 2 else diameter inp / 2)\<^sup>2)
          + mm inp * 1000000 * x
              / (2 * (if arrangement inp = rectangular
                      then of_int (numCols inp) * colSpacing inp / 2 else diameter inp / 2)\<^sup>2))
         / 1000)
         (fst (calculateBoltLayout inp))
   \<and> totalAxial defaultInputs (of_int (boltCount defaultInputs))
         (hd (fst (calculateBoltLayout defaultInputs))) = - 80.953125"
proof (intro conjI)
  show f: "totalAxial inp n (x, y)
     = pryingAllowance inp *
         (nt inp * 1000 / n
          + mb inp * 1000000 * y
              / (2 * (if arrangement inp = rectangular
                      then of_int (numRows inp) * rowSpacing inp / 2 else diameter inp / 2)\<^sup>2)
          + mm inp * 1000000 * x
              / (2 * (if arrangement inp = rectangular
                      then of_int (numCols inp) * colSpacing inp / 2 else diameter inp / 2)\<^sup>2))
         / 1000" for n x y
    unfolding totalAxial_def pureAxialForce_def majorAxisForce_def minorAxisForce_def
      ym_def xm_def
    by (simp add: power2_eq_square)
  show "map snd (appBoltForces inp)
     = map (\<lambda>(x, y). pryingAllowance inp *
         (nt inp * 1000 / of_int (boltCount inp)
          + mb inp * 1000000 * y
              / (2 * (if arrangement inp = rectangular
                      then of_int (numRows inp) * rowSpacing inp / 2 else diameter inp / 2)\<^sup>2)
          + mm inp * 1000000 * x
              / (2 * (if arrangement inp = rectangular
                      then of_int (numCols inp) * colSpacing inp / 2 else diameter inp / 2)\<^sup>2))
         / 1000)
         (fst (calculateBoltLayout inp))"
    unfolding appBoltForces_eq map_map comp_def snd_conv
    by (rule map_cong [OF refl]) (simp only: f [symmetric] split_beta prod.collapse)
  show "totalAxial defaultInputs (of_int (boltCount defaultInputs))
         (hd (fst (calculateBoltLayout defaultInputs))) = - 80.953125"
    by (simp add: default_count default_corner_position default_corner_tension)
qed

section \<open>Interaction check and reported maxima\<close>

text \<open>
  Claim C3. For every successful evaluation, the stored combined ratio is
  \<open>(maxShear/phiVf)\<^sup>2 + (maxTension/phiNtf)\<^sup>2\<close> for the capacities of the selected catalog
  entry (\<open>shearForce\<close> and \<open>axialForce\<close> are the fields that hold the largest shear and
  tension), and the banner over the stored results reads "Design is acceptable" if and
  only if this ratio is at most 1.
\<close>

theorem combined_ratio_and_acceptance:
  assumes "calculate inp = Inr r"
  shows "\<exists>b. getBoltProperties (boltGrade inp) (boltSize inp) = Some b
           \<and> maxShear r = phiVf b \<and> maxTension r = phiNtf b
           \<and> combinedRatio r = (shearForce r / phiVf b)\<^sup>2 + (axialForce r / phiNtf b)\<^sup>2
           \<and> ((acceptanceBanner (results (calculationEffect inp st)) = ''Design is acceptable'')
                = ((shearForce r / phiVf b)\<^sup>2 + (axialForce r / phiNtf b)\<^sup>2 \<le> 1))"
proof -
  from assms obtain b where n: "2 \<le> boltCount inp"
    and g: "getBoltProperties (boltGrade inp) (boltSize inp) = Some b"
    by (rule calculate_Inr_cases)
  have r: "r = \<lparr>shearForce = fst (trackedMax inp), axialForce = snd (trackedMax inp),
         combinedRatio = (fst (trackedMax inp) / phiVf b)\<^sup>2 + (snd (trackedMax inp) / phiNtf b)\<^sup>2,
         boltPositions = fst (calculateBoltLayout inp),
         maxShear = phiVf b, maxTension = phiNtf b,
         ibp_res = snd (calculateBoltLayout inp),
         tensileArea_res = tensileArea b,
         shearStress = (fst (trackedMax inp) * 1000) / tensileArea b,
         tensileStress = (snd (trackedMax inp) * 1000) / tensileArea b\<rparr>"
    using assms unfolding calculate_success [OF n g] by simp
  have e: "results (calculationEffect inp st) = r"
    using assms by (simp add: calculationEffect_def)
  have "maxShear r = phiVf b" "maxTension r = phiNtf b"
    "combinedRatio r = (shearForce r / phiVf b)\<^sup>2 + (axialForce r / phiNtf b)\<^sup>2"
    by (simp_all add: r)
  moreover from this(3)
  have "(acceptanceBanner (results (calculationEffect inp st)) = ''Design is acceptable'')
          = ((shearForce r / phiVf b)\<^sup>2 + (axialForce r / phiNtf b)\<^sup>2 \<le> 1)"
    unfolding e acceptanceBanner_def by simp
  ultimately show ?thesis using g by blast
qed

text \<open>The row of two bolts under direct shear evaluates successfully, to an acceptable design.\<close>

theorem combined_ratio_and_acceptance_witness:
  "calculate directShearInputs = Inr directShearResults
   \<and> combinedRatio directShearResults = (25 / 145.1)\<^sup>2 + (5.5 / 234.1)\<^sup>2
   \<and> acceptanceBanner (results (calculationEffect directShearInputs initialState))
       = ''Design is acceptable''"
proof -
  have h: "calculate directShearInputs = Inr directShearResults"
    by (rule directShear_calculate)
  have le: "(25 / 145.1)\<^sup>2 + (5.5 / 234.1)\<^sup>2 \<le> (1::real)"
    by (simp add: power2_eq_square)
  from combined_ratio_and_acceptance [OF h, of initialState]
  obtain b where "getBoltProperties (boltGrade directShearInputs) (boltSize directShearInputs) = Some b"
    and "combinedRatio directShearResults
           = (shearForce directShearResults / phiVf b)\<^sup>2 + (axialForce directShearResults / phiNtf b)\<^sup>2"
    and acc: "(acceptanceBanner (results (calculationEffect directShearInputs initialState))
               = ''Design is acceptable'')
            = ((shearForce directShearResults / phiVf b)\<^sup>2
                 + (axialForce directShearResults / phiNtf b)\<^sup>2 \<le> 1)"
    by blast
  then have b: "b = mkBolt ''Grade 8.8'' ''M24'' 145.1 234.1 352.5 830"
    by (simp add: directShearInputs_def defaultInputs_def lookup_M24)
  have "acceptanceBanner (results (calculationEffect directShearInputs initialState))
          = ''Design is acceptable''"
    using acc le unfolding b by (simp add: mkBolt_def directShearResults_def)
  moreover have "combinedRatio directShearResults = (25 / 145.1)\<^sup>2 + (5.5 / 234.1)\<^sup>2"
    by (simp add: directShearResults_def)
  ultimately show ?thesis using h by simp
qed

text \<open>
  Claim C4, amended. For every successful evaluation, the reported largest shear is the
  maximum over all bolts of the per-bolt shear (whenever there is a bolt), and the
  reported largest tension is the larger of 0 and the maximum over all bolts of the
  per-bolt tension: it is the maximum over the bolts when some bolt has a non-negative
  tension, and it is 0 when every bolt's tension is negative, because the running
  maximum starts at 0.
\<close>

theorem reported_maxima:
  assumes "calculate inp = Inr r"
  shows "shearForce r = Max (set (0 # map fst (appBoltForces inp)))
       \<and> axialForce r = Max (set (0 # map snd (appBoltForces inp)))
       \<and> (appBoltForces inp \<noteq> [] \<longrightarrow> shearForce r = Max (set (map fst (appBoltForces inp))))
       \<and> ((\<exists>t \<in> set (map snd (appBoltForces inp)). 0 \<le> t) \<longrightarrow>
             axialForce r = Max (set (map snd (appBoltForces inp))))
       \<and> ((\<forall>t \<in> set (map snd (appBoltForces inp)). t < 0) \<longrightarrow> axialForce r = 0)"
proof -
  from assms obtain b where n: "2 \<le> boltCount inp"
    and g: "getBoltProperties (boltGrade inp) (boltSize inp) = Some b"
    by (rule calculate_Inr_cases)
  have s: "shearForce r = Max (set (0 # map fst (appBoltForces inp)))"
    and t: "axialForce r = Max (set (0 # map snd (appBoltForces inp)))"
    using assms unfolding calculate_success [OF n g] by (auto simp: trackedMax_eq)
  have "shearForce r = Max (set (map fst (appBoltForces inp)))" if "appBoltForces inp \<noteq> []"
  proof -
    from that obtain x where "x \<in> set (map fst (appBoltForces inp))"
      by (cases "appBoltForces inp") auto
    then have "\<exists>x \<in> set (map fst (appBoltForces inp)). 0 \<le> x"
      using appBoltForces_shear_nonneg by blast
    then show ?thesis unfolding s by (rule Max_with_zero)
  qed
  moreover have "axialForce r = Max (set (map snd (appBoltForces inp)))"
    if "\<exists>t \<in> set (map snd (appBoltForces inp)). 0 \<le> t"
    unfolding t using that by (rule Max_with_zero)
  moreover have "axialForce r = 0" if "\<forall>t \<in> set (map snd (appBoltForces inp)). t < 0"
    unfolding t using that by (rule Max_all_negative)
  ultimately show ?thesis using s t by blast
qed

text \<open>
  Both cases occur: the row of two bolts under direct shear and tension reports the
  maxima over its bolts, the row under axial compression reports the tension 0.
\<close>

theorem reported_maxima_witness:
  "calculate directShearInputs = Inr directShearResults
   \<and> appBoltForces directShearInputs = [(25, 5.5), (25, 5.5)]
   \<and> shearForce directShearResults = Max (set (map fst (appBoltForces directShearInputs)))
   \<and> axialForce directShearResults = Max (set (map snd (appBoltForces directShearInputs)))
   \<and> calculate compressionInputs = Inr compressionResults
   \<and> appBoltForces compressionInputs = [(0, - 5.5), (0, - 5.5)]
   \<and> shearForce compressionResults = Max (set (map fst (appBoltForces compressionInputs)))
   \<and> axialForce compressionResults = 0"
proof -
  note d = reported_maxima [OF directShear_calculate]
  note c = reported_maxima [OF compression_calculate]
  have ne: "appBoltForces directShearInputs \<noteq> []"
    by (simp add: directShear_forces)
  have ex: "\<exists>t \<in> set (map snd (appBoltForces directShearInputs)). 0 \<le> t"
    unfolding directShear_forces by (rule bexI [where x = "5.5"]) simp_all
  have ne': "appBoltForces compressionInputs \<noteq> []"
    and al: "\<forall>t \<in> set (map snd (appBoltForces compressionInputs)). t < 0"
    by (simp_all add: compression_forces)
  from d ne have "shearForce directShearResults
                    = Max (set (map fst (appBoltForces directShearInputs)))" by blast
  moreover from d ex have "axialForce directShearResults
                    = Max (set (map snd (appBoltForces directShearInputs)))" by blast
  moreover from c ne' have "shearForce compressionResults
                    = Max (set (map fst (appBoltForces compressionInputs)))" by blast
  moreover from c al have "axialForce compressionResults = 0" by blast
  ultimately show ?thesis
    using directShear_calculate directShear_forces compression_calculate compression_forces
    by (intro conjI)
qed

text \<open>
  Claim C4 as stated fails when every bolt is in compression: for the row of two bolts
  under an axial force of -10 kN each bolt has the tension -5.5 kN, whose maximum is
  -5.5 kN, and the evaluation reports 0.
\<close>

theorem max_tension_counterexample:
  "calculate compressionInputs = Inr compressionResults
   \<and> map snd (appBoltForces compressionInputs) = [- 5.5, - 5.5]
   \<and> Max (set (map snd (appBoltForces compressionInputs))) = - 5.5
   \<and> axialForce compressionResults = 0
   \<and> axialForce compressionResults \<noteq> Max (set (map snd (appBoltForces compressionInputs)))"
  by (simp add: compression_calculate compression_forces compressionResults_def)

section \<open>Failures of the evaluation\<close>

text \<open>
  Claim C5. For every input whose total bolt count is less than 2, the evaluation fails
  with \<open>InsufficientBoltCount\<close> (so it returns no result at all), the previously stored
  results are left unchanged, and the error message of the state is set.
\<close>

theorem insufficient_bolt_count_fails:
  assumes "boltCount inp < 2"
  shows "calculate inp = Inl InsufficientBoltCount
       \<and> results (calculationEffect inp st) = results st
       \<and> error (calculationEffect inp st) = Some ''Minimum 2 bolts required for analysis''"
  using assms by (simp add: calculationEffect_def calculate_insufficient)

text \<open>
  One row and one column: a single bolt. Results stored before the evaluation are still
  there after it.
\<close>

theorem insufficient_bolt_count_fails_witness:
  "arrangement singleBoltInputs = rectangular
   \<and> numRows singleBoltInputs = 1 \<and> numCols singleBoltInputs = 1
   \<and> boltCount singleBoltInputs < 2
   \<and> calculate singleBoltInputs = Inl InsufficientBoltCount
   \<and> results (calculationEffect singleBoltInputs \<lparr>results = directShearResults, error = None\<rparr>)
       = directShearResults
   \<and> error (calculationEffect singleBoltInputs \<lparr>results = directShearResults, error = None\<rparr>)
       = Some ''Minimum 2 bolts required for analysis''"
proof -
  have a: "arrangement singleBoltInputs = rectangular"
    and r: "numRows singleBoltInputs = 1" and c: "numCols singleBoltInputs = 1"
    by (simp_all add: singleBoltInputs_def defaultInputs_def)
  have h: "boltCount singleBoltInputs < 2"
    by (simp add: boltCount_def a r c)
  from a r c h
    insufficient_bolt_count_fails [OF h, of "\<lparr>results = directShearResults, error = None\<rparr>"]
  show ?thesis by (intro conjI) simp_all
qed

text \<open>
  Claim C6, amended. For every pair of a grade and a size, the lookup is a total
  function that returns the catalog entry of the pair when the catalog has one and
  \<open>None\<close> otherwise. When the selected pair is absent the evaluation produces no result
  and leaves the stored results unchanged: it fails with \<open>UnknownBoltSpec\<close> when the total
  bolt count is at least 2, and with \<open>InsufficientBoltCount\<close>, which is checked first, when
  the total bolt count is less than 2.
\<close>

theorem lookup_total_and_unknown_spec:
  "(getBoltProperties g s = Some b \<longleftrightarrow> b \<in> set boltData \<and> grade b = g \<and> size_bolt b = s)
   \<and> (getBoltProperties g s = None
        \<longleftrightarrow> (g, s) \<notin> set (map (\<lambda>b. (grade b, size_bolt b)) boltData))
   \<and> (getBoltProperties (boltGrade inp) (boltSize inp) = None \<longrightarrow>
        (calculate inp = Inl (if boltCount inp < 2 then InsufficientBoltCount else UnknownBoltSpec))
        \<and> results (calculationEffect inp st) = results st)"
proof (intro conjI impI)
  show "getBoltProperties g s = Some b \<longleftrightarrow> b \<in> set boltData \<and> grade b = g \<and> size_bolt b = s"
    by (rule getBoltProperties_Some_iff)
  show "getBoltProperties g s = None
        \<longleftrightarrow> (g, s) \<notin> set (map (\<lambda>b. (grade b, size_bolt b)) boltData)"
    by (rule getBoltProperties_None_iff)
next
  assume n: "getBoltProperties (boltGrade inp) (boltSize inp) = None"
  then show c: "calculate inp = Inl (if boltCount inp < 2 then InsufficientBoltCount else UnknownBoltSpec)"
    by (cases "boltCount inp < 2") (simp_all add: calculate_insufficient calculate_unknown)
  then show "results (calculationEffect inp st) = results st"
    by (simp add: calculationEffect_def)
qed

text \<open>The default group of 16 bolts with a size that the catalog does not hold.\<close>

theorem lookup_total_and_unknown_spec_witness:
  "getBoltProperties (boltGrade unknownSizeInputs) (boltSize unknownSizeInputs) = None
   \<and> boltCount unknownSizeInputs = 16
   \<and> calculate unknownSizeInputs = Inl UnknownBoltSpec
   \<and> results (calculationEffect unknownSizeInputs initialState) = initialResults"
proof -
  have n: "boltCount unknownSizeInputs = 16"
    by (simp add: boltCount_def unknownSizeInputs_def defaultInputs_def)
  from lookup_total_and_unknown_spec [of "''Grade 8.8''" "''M99''" "mkBolt ''Grade 8.8'' ''M24'' 145.1 234.1 352.5 830" unknownSizeInputs initialState]
    unknownSize_lookup
  have "calculate unknownSizeInputs
          = Inl (if boltCount unknownSizeInputs < 2 then InsufficientBoltCount else UnknownBoltSpec)"
    and "results (calculationEffect unknownSizeInputs initialState) = results initialState"
    by blast+
  then show ?thesis using unknownSize_lookup n by (simp add: initialState_def)
qed

text \<open>
  Claim C6 as stated fails for a single bolt of an unknown size: the pair is absent, and
  the evaluation fails with \<open>InsufficientBoltCount\<close>, not with \<open>UnknownBoltSpec\<close>.
\<close>

theorem unknown_spec_counterexample:
  "getBoltProperties (boltGrade singleBoltUnknownSizeInputs) (boltSize singleBoltUnknownSizeInputs)
     = None
   \<and> calculate singleBoltUnknownSizeInputs = Inl InsufficientBoltCount
   \<and> calculate singleBoltUnknownSizeInputs \<noteq> Inl UnknownBoltSpec"
proof -
  have "boltCount singleBoltUnknownSizeInputs < 2"
    by (simp add: boltCount_def singleBoltUnknownSizeInputs_def defaultInputs_def)
  then have "calculate singleBoltUnknownSizeInputs = Inl InsufficientBoltCount"
    by (rule calculate_insufficient)
  moreover have "getBoltProperties (boltGrade singleBoltUnknownSizeInputs)
        (boltSize singleBoltUnknownSizeInputs) = None"
    by (simp add: singleBoltUnknownSizeInputs_def defaultInputs_def lookup_M99)
  ultimately show ?thesis by simp
qed

section \<open>Pure axial load\<close>

text \<open>
  Claim C7. For every arrangement of the data model (rectangular with at least one row
  and one column and positive spacings, circular with a positive diameter) with at least
  two bolts, when both bending moments are zero the tension computed for a bolt is
  \<open>\<alpha> * Nt / n\<close> whatever its position, and the tensions of the bolts of the layout are
  \<open>n\<close> copies of this value. The claim also takes the shears and the torsion to be zero;
  the tension does not depend on them.
\<close>

theorem pure_axial_tension_uniform:
  assumes "2 \<le> boltCount inp" and "mb inp = 0" and "mm inp = 0"
    and "arrangement inp = rectangular \<longrightarrow>
           1 \<le> numRows inp \<and> 1 \<le> numCols inp \<and> 0 < rowSpacing inp \<and> 0 < colSpacing inp"
    and "arrangement inp = circular \<longrightarrow> 0 < diameter inp"
  shows "totalAxial inp (of_int (boltCount inp)) pos
           = pryingAllowance inp * nt inp / of_int (boltCount inp)
       \<and> map snd (appBoltForces inp)
           = replicate (nat (boltCount inp))
               (pryingAllowance inp * nt inp / of_int (boltCount inp))"
proof
  show "totalAxial inp (of_int (boltCount inp)) pos
           = pryingAllowance inp * nt inp / of_int (boltCount inp)"
    using assms(2,3) by (rule totalAxial_pure)
  have "arrangement inp = rectangular \<longrightarrow> 0 \<le> numRows inp"
    using assms(4) by auto
  then have len: "length (fst (calculateBoltLayout inp)) = nat (boltCount inp)"
    by (rule length_layout)
  have "map snd (appBoltForces inp)
          = map (\<lambda>pos. pryingAllowance inp * nt inp / of_int (boltCount inp))
              (fst (calculateBoltLayout inp))"
    unfolding appBoltForces_eq map_map comp_def snd_conv
    by (simp only: totalAxial_pure [OF assms(2,3)])
  also have "\<dots> = replicate (nat (boltCount inp))
               (pryingAllowance inp * nt inp / of_int (boltCount inp))"
    by (simp only: map_replicate_const len)
  finally show "map snd (appBoltForces inp)
           = replicate (nat (boltCount inp))
               (pryingAllowance inp * nt inp / of_int (boltCount inp))" .
qed

text \<open>
  Eight bolts on a circle of 400 mm, an axial force of 80 kN and a prying allowance of
  1.1: every bolt has the tension 11 kN.
\<close>

theorem pure_axial_tension_uniform_witness:
  "arrangement circularAxialInputs = circular \<and> diameter circularAxialInputs = 400
   \<and> boltCount circularAxialInputs = 8 \<and> nt circularAxialInputs = 80
   \<and> pryingAllowance circularAxialInputs = 1.1
   \<and> totalAxial circularAxialInputs 8 (200, 0) = 11
   \<and> map snd (appBoltForces circularAxialInputs) = replicate 8 11"
proof -
  have a: "arrangement circularAxialInputs = circular" and d: "diameter circularAxialInputs = 400"
    and n: "boltCount circularAxialInputs = 8" and t: "nt circularAxialInputs = 80"
    and p: "pryingAllowance circularAxialInputs = 1.1"
    and b: "mb circularAxialInputs = 0" and m: "mm circularAxialInputs = 0"
    by (simp_all add: circularAxialInputs_def defaultInputs_def boltCount_def)
  have h1: "2 \<le> boltCount circularAxialInputs" by (simp add: n)
  have h4: "arrangement circularAxialInputs = rectangular \<longrightarrow>
           1 \<le> numRows circularAxialInputs \<and> 1 \<le> numCols circularAxialInputs
           \<and> 0 < rowSpacing circularAxialInputs \<and> 0 < colSpacing circularAxialInputs"
    by (simp add: a)
  have h5: "arrangement circularAxialInputs = circular \<longrightarrow> 0 < diameter circularAxialInputs"
    by (simp add: d)
  from pure_axial_tension_uniform [OF h1 b m h4 h5, of "(200, 0)"]
  have "totalAxial circularAxialInputs 8 (200, 0) = 11"
    and "map snd (appBoltForces circularAxialInputs) = replicate 8 11"
    by (simp_all add: n t p)
  with a d n t p show ?thesis by simp
qed

section \<open>Properties of the layout\<close>

text \<open>
  Claim C8. For every arrangement, rectangular with at least one row and one column and
  any spacings, circular with at least two bolts, \<open>calculateBoltLayout\<close> enumerates
  the bolts of the arrangement (the centred grid, row by row, or the points of the
  circle at the angles \<open>i * 2\<pi>/numBolts\<close>), as many as the total bolt count and at least
  one, and these positions have their centroid at the origin: the x coordinates sum to
  zero and the y coordinates sum to zero (in exact arithmetic).
\<close>

theorem layout_centroid_at_origin:
  assumes "arrangement inp = rectangular \<longrightarrow> 1 \<le> numRows inp \<and> 1 \<le> numCols inp"
    and "arrangement inp = circular \<longrightarrow> 2 \<le> numBolts inp"
  shows "fst (calculateBoltLayout inp)
           = (if arrangement inp = rectangular then gridPositions inp else circlePositions inp)
       \<and> length (fst (calculateBoltLayout inp)) = nat (boltCount inp)
       \<and> 1 \<le> length (fst (calculateBoltLayout inp))
       \<and> sum_list (map fst (fst (calculateBoltLayout inp))) = 0
       \<and> sum_list (map snd (fst (calculateBoltLayout inp))) = 0"
proof -
  have r0: "arrangement inp = rectangular \<longrightarrow> 0 \<le> numRows inp"
    using assms(1) by auto
  have len: "length (fst (calculateBoltLayout inp)) = nat (boltCount inp)"
    using r0 by (rule length_layout)
  have pos: "1 \<le> boltCount inp"
  proof (cases "arrangement inp")
    case rectangular
    with assms(1) have "1 \<le> numRows inp" "1 \<le> numCols inp" by simp_all
    then have "1 * 1 \<le> numRows inp * numCols inp" by (intro mult_mono) simp_all
    with rectangular show ?thesis by (simp add: boltCount_def)
  next
    case circular
    with assms(2) show ?thesis by (simp add: boltCount_def)
  qed
  have ge: "1 \<le> length (fst (calculateBoltLayout inp))"
    unfolding len using pos by simp
  show ?thesis
  proof (cases "arrangement inp")
    case rectangular
    with len ge show ?thesis by (simp add: layout_rect grid_sum_x grid_sum_y)
  next
    case circular
    with assms(2) have "2 \<le> numBolts inp" by simp
    with circular len ge show ?thesis
      by (simp add: layout_circ circle_sum_x circle_sum_y)
  qed
qed

text \<open>
  The circle of eight bolts, whose first bolt is at \<open>(200, 0)\<close>, and the row of two bolts
  at \<open>(-80, 0)\<close> and \<open>(80, 0)\<close> satisfy the hypotheses.
\<close>

theorem layout_centroid_at_origin_witness:
  "arrangement circularAxialInputs = circular \<and> 2 \<le> numBolts circularAxialInputs
   \<and> length (fst (calculateBoltLayout circularAxialInputs)) = 8
   \<and> hd (fst (calculateBoltLayout circularAxialInputs)) = (200, 0)
   \<and> sum_list (map fst (fst (calculateBoltLayout circularAxialInputs))) = 0
   \<and> sum_list (map snd (fst (calculateBoltLayout circularAxialInputs))) = 0
   \<and> arrangement directShearInputs = rectangular
   \<and> numRows directShearInputs = 1 \<and> numCols directShearInputs = 2
   \<and> fst (calculateBoltLayout directShearInputs) = [(- 80, 0), (80, 0)]
   \<and> length (fst (calculateBoltLayout directShearInputs)) = 2
   \<and> sum_list (map fst (fst (calculateBoltLayout directShearInputs))) = 0
   \<and> sum_list (map snd (fst (calculateBoltLayout directShearInputs))) = 0"
proof -
  have a: "arrangement circularAxialInputs = circular"
    and n: "2 \<le> numBolts circularAxialInputs"
    and c: "boltCount circularAxialInputs = 8"
    by (simp_all add: circularAxialInputs_def defaultInputs_def boltCount_def)
  have h1: "arrangement circularAxialInputs = rectangular \<longrightarrow>
              1 \<le> numRows circularAxialInputs \<and> 1 \<le> numCols circularAxialInputs"
    by (simp add: a)
  have h2: "arrangement circularAxialInputs = circular \<longrightarrow> 2 \<le> numBolts circularAxialInputs"
    using n by simp
  have a': "arrangement directShearInputs = rectangular"
    and r': "numRows directShearInputs = 1" and c': "numCols directShearInputs = 2"
    by (simp_all add: directShearInputs_def defaultInputs_def)
  have g1: "arrangement directShearInputs = rectangular \<longrightarrow>
              1 \<le> numRows directShearInputs \<and> 1 \<le> numCols directShearInputs"
    by (simp add: r' c')
  have g2: "arrangement directShearInputs = circular \<longrightarrow> 2 \<le> numBolts directShearInputs"
    by (simp add: a')
  note circ = layout_centroid_at_origin [OF h1 h2]
  note rect = layout_centroid_at_origin [OF g1 g2]
  note circ_len = circ [THEN conjunct2, THEN conjunct1]
  note circ_sums = circ [THEN conjunct2, THEN conjunct2, THEN conjunct2]
  note rect_len = rect [THEN conjunct2, THEN conjunct1]
  note rect_sums = rect [THEN conjunct2, THEN conjunct2, THEN conjunct2]
  have l: "length (fst (calculateBoltLayout circularAxialInputs)) = 8"
    using circ_len by (simp add: c)
  have l': "length (fst (calculateBoltLayout directShearInputs)) = 2"
    using rect_len by (simp add: directShear_count)
  have p': "fst (calculateBoltLayout directShearInputs) = [(- 80, 0), (80, 0)]"
    by (simp only: directShear_layout fst_conv)
  from a n l circularAxial_first circ_sums a' r' c' p' l' rect_sums
  show ?thesis by blast
qed

text \<open>
  Claim C9. For every arrangement that satisfies the preconditions of the data model
  (rectangular: at least one row and one column, at least two bolts in total and
  positive spacings; circular: at least two bolts and a positive diameter), the polar
  moment computed by \<open>calculateBoltLayout\<close> is strictly positive, so the torsion terms
  never divide by zero. This covers a single row and a single column of bolts.
\<close>

theorem ibp_positive:
  assumes "arrangement inp = rectangular \<longrightarrow>
             1 \<le> numRows inp \<and> 1 \<le> numCols inp \<and> 2 \<le> numRows inp * numCols inp
             \<and> 0 < rowSpacing inp \<and> 0 < colSpacing inp"
    and "arrangement inp = circular \<longrightarrow> 2 \<le> numBolts inp \<and> 0 < diameter inp"
  shows "0 < snd (calculateBoltLayout inp)"
proof (cases "arrangement inp")
  case rectangular
  with assms(1) show ?thesis by (simp add: layout_rect grid_ibp_pos)
next
  case circular
  with assms(2) have "0 < (of_int (numBolts inp) :: real)" "0 < diameter inp" by simp_all
  with circular show ?thesis by (simp add: layout_circ)
qed

text \<open>A single row of two bolts satisfies the hypotheses.\<close>

theorem ibp_positive_witness:
  "arrangement compressionInputs = rectangular
   \<and> numRows compressionInputs = 1 \<and> numCols compressionInputs = 2
   \<and> 0 < snd (calculateBoltLayout compressionInputs)"
proof -
  have a: "arrangement compressionInputs = rectangular"
    and r: "numRows compressionInputs = 1" and c: "numCols compressionInputs = 2"
    by (simp_all add: compressionInputs_def defaultInputs_def)
  have h1: "arrangement compressionInputs = rectangular \<longrightarrow>
             1 \<le> numRows compressionInputs \<and> 1 \<le> numCols compressionInputs
             \<and> 2 \<le> numRows compressionInputs * numCols compressionInputs
             \<and> 0 < rowSpacing compressionInputs \<and> 0 < colSpacing compressionInputs"
    by (simp add: compressionInputs_def defaultInputs_def)
  have h2: "arrangement compressionInputs = circular \<longrightarrow>
             2 \<le> numBolts compressionInputs \<and> 0 < diameter compressionInputs"
    by (simp add: compressionInputs_def defaultInputs_def)
  from a r c ibp_positive [OF h1 h2] show ?thesis by (intro conjI) simp_all
qed

section \<open>Agreement of BoltPattern with App\<close>

text \<open>
  Claim C10. For every input, the shear and the tension that \<open>calculateBoltForces\<close> of
  the BoltPattern component computes are equal, bolt for bolt in the order of
  enumeration, to those that the effect of App computes (in exact arithmetic).
\<close>

theorem bolt_pattern_agrees_with_app:
  "map (\<lambda>bf. (shear bf, tension bf)) (calculateBoltForces inp) = appBoltForces inp"
  by (cases "arrangement inp") (simp_all only: bp_rect bp_circ)

text \<open>On the row of two bolts under direct shear both give 25 kN and 5.5 kN for each bolt.\<close>

theorem bolt_pattern_agrees_with_app_witness:
  "map (\<lambda>bf. (shear bf, tension bf)) (calculateBoltForces directShearInputs)
     = [(25, 5.5), (25, 5.5)]"
  using bolt_pattern_agrees_with_app [of directShearInputs]
  by (simp only: directShear_forces)

end
